theory Spec2Isabelle
  imports Main "HOL-Library.Log_Nat" "HOL-Library.Word"
begin

section \<open>Machine numbers\<close>

text \<open>
  \<^verbatim>\<open>guint\<close> and \<open>gint\<close> are 32-bit words: \<open>+\<close> and \<open>-\<close> wrap, \<open>\<le>\<close> and \<open><\<close> on
  words compare unsigned, \<open>sint\<close> reads a word as two's complement.

  \<^verbatim>\<open>gfloat\<close> is IEEE 754 binary32 with round-to-nearest-even, and every operation
  rounds its result to binary32 (\<^verbatim>\<open>FLT_EVAL_METHOD\<close> 0).  A finite value is kept as the
  rational number it denotes; the negative zero, the two infinities and NaN are
  constructors of their own.  \<open>Finite 0\<close> is the positive zero.
\<close>

type_synonym guint = "32 word"
type_synonym gint = "32 word"

datatype gfloat = Finite rat | NZero | PInf | NInf | NaN

definition pow2 :: "int \<Rightarrow> rat" where
  "pow2 e = (if 0 \<le> e then 2 ^ nat e else 1 / 2 ^ nat (- e))"

text \<open>\<open>ilog2 a\<close> is the integer \<open>e\<close> with \<open>2^e \<le> a < 2^(e+1)\<close>, for \<open>a > 0\<close>.\<close>

definition ilog2 :: "rat \<Rightarrow> int" where
  "ilog2 a = (if 1 \<le> a then bitlen \<lfloor>a\<rfloor> - 1 else - bitlen (\<lceil>1 / a\<rceil> - 1))"

definition round_half_even :: "rat \<Rightarrow> int" where
  "round_half_even x =
     (let f = \<lfloor>x\<rfloor>; r = x - of_int f
      in if r < 1 / 2 then f else if 1 / 2 < r then f + 1 else if even f then f else f + 1)"

text \<open>
  Rounding of an exact result to binary32: 24 significant bits, the exponent of the
  last place never below \<open>-149\<close> (subnormal numbers), overflow to an infinity from
  \<open>2^128\<close> on.  A nonzero result that rounds to zero keeps its sign.
\<close>

definition f32_round :: "rat \<Rightarrow> gfloat" where
  "f32_round x =
     (let a = \<bar>x\<bar>;
          e = max (ilog2 a) (- 126);
          q = pow2 (e - 23);
          m = round_half_even (a / q);
          y = of_int m * q
      in if x = 0 then Finite 0
         else if pow2 128 \<le> y then (if 0 < x then PInf else NInf)
         else if m = 0 then (if 0 < x then Finite 0 else NZero)
         else Finite (if 0 < x then y else - y))"

definition f32_of_int :: "int \<Rightarrow> gfloat" where
  "f32_of_int i = f32_round (of_int i)"

fun f32_sign :: "gfloat \<Rightarrow> bool" where
  "f32_sign (Finite x) = (x < 0)"
| "f32_sign NZero = True"
| "f32_sign PInf = False"
| "f32_sign NInf = True"
| "f32_sign NaN = False"

fun f32_add :: "gfloat \<Rightarrow> gfloat \<Rightarrow> gfloat" where
  "f32_add NaN _ = NaN"
| "f32_add _ NaN = NaN"
| "f32_add PInf NInf = NaN"
| "f32_add NInf PInf = NaN"
| "f32_add PInf _ = PInf"
| "f32_add _ PInf = PInf"
| "f32_add NInf _ = NInf"
| "f32_add _ NInf = NInf"
| "f32_add NZero NZero = NZero"
| "f32_add NZero (Finite y) = Finite y"
| "f32_add (Finite x) NZero = Finite x"
| "f32_add (Finite x) (Finite y) = (if x + y = 0 then Finite 0 else f32_round (x + y))"

fun f32_is_zero :: "gfloat \<Rightarrow> bool" where
  "f32_is_zero (Finite x) = (x = 0)"
| "f32_is_zero NZero = True"
| "f32_is_zero _ = False"

fun f32_is_inf :: "gfloat \<Rightarrow> bool" where
  "f32_is_inf PInf = True"
| "f32_is_inf NInf = True"
| "f32_is_inf _ = False"

fun f32_value :: "gfloat \<Rightarrow> rat" where
  "f32_value (Finite x) = x"
| "f32_value _ = 0"

definition f32_div :: "gfloat \<Rightarrow> gfloat \<Rightarrow> gfloat" where
  "f32_div a b =
     (let s = (f32_sign a \<noteq> f32_sign b)
      in if a = NaN \<or> b = NaN then NaN
         else if f32_is_inf a then (if f32_is_inf b then NaN else if s then NInf else PInf)
         else if f32_is_inf b then (if s then NZero else Finite 0)
         else if f32_is_zero b then
           (if f32_is_zero a then NaN else if s then NInf else PInf)
         else if f32_is_zero a then (if s then NZero else Finite 0)
         else f32_round (f32_value a / f32_value b))"

text \<open>\<open>a > b\<close> on floats: false as soon as one side is NaN; the two zeros are equal.\<close>

fun f32_gt :: "gfloat \<Rightarrow> gfloat \<Rightarrow> bool" where
  "f32_gt NaN _ = False"
| "f32_gt _ NaN = False"
| "f32_gt NInf _ = False"
| "f32_gt _ PInf = False"
| "f32_gt PInf _ = True"
| "f32_gt _ NInf = True"
| "f32_gt a b = (f32_value b < f32_value a)"

text \<open>
  Conversion of a float to an integer type discards the fraction; the behaviour is
  undefined when the integral part does not fit (C11, 6.3.1.4), which the model
  returns as \<open>None\<close>.
\<close>

definition truncate_rat :: "rat \<Rightarrow> int" where
  "truncate_rat x = (if 0 \<le> x then \<lfloor>x\<rfloor> else \<lceil>x\<rceil>)"

fun f32_to_guint :: "gfloat \<Rightarrow> guint option" where
  "f32_to_guint (Finite x) =
     (let t = truncate_rat x in if 0 \<le> t \<and> t < 2 ^ 32 then Some (word_of_int t) else None)"
| "f32_to_guint NZero = Some 0"
| "f32_to_guint _ = None"

fun f32_to_gint :: "gfloat \<Rightarrow> gint option" where
  "f32_to_gint (Finite x) =
     (let t = truncate_rat x
      in if - (2 ^ 31) \<le> t \<and> t < 2 ^ 31 then Some (word_of_int t) else None)"
| "f32_to_gint NZero = Some 0"
| "f32_to_gint _ = None"

section \<open>Reference-counted objects, diagnostics\<close>

text \<open>
  A \<^verbatim>\<open>GFile *\<close> is \<open>None\<close> (NULL) or the address of an object; a \<^verbatim>\<open>gchar *\<close> is
  \<open>None\<close> or a string.  The world the functions run in holds the reference count of
  every object and the diagnostics emitted so far.  \<^verbatim>\<open>g_object_ref\<close> and
  \<^verbatim>\<open>g_object_unref\<close> refuse NULL and change nothing then.
\<close>

type_synonym gfile = "nat option"
type_synonym gstr = "string option"

record world =
  refs :: "nat \<Rightarrow> nat"
  warnings :: "string list"

definition g_object_ref :: "gfile \<Rightarrow> world \<Rightarrow> world" where
  "g_object_ref f w = (case f of None \<Rightarrow> w | Some a \<Rightarrow> w\<lparr>refs := (refs w)(a := refs w a + 1)\<rparr>)"

definition g_object_unref :: "gfile \<Rightarrow> world \<Rightarrow> world" where
  "g_object_unref f w = (case f of None \<Rightarrow> w | Some a \<Rightarrow> w\<lparr>refs := (refs w)(a := refs w a - 1)\<rparr>)"

definition GST_WARNING :: "string \<Rightarrow> world \<Rightarrow> world" where
  "GST_WARNING msg w = w\<lparr>warnings := warnings w @ [msg]\<rparr>"

text \<open>What a failed \<^verbatim>\<open>g_return_if_fail\<close> or \<^verbatim>\<open>g_return_val_if_fail\<close> of a function logs.\<close>

definition g_return_if_fail_warning :: "string \<Rightarrow> string \<Rightarrow> world \<Rightarrow> world" where
  "g_return_if_fail_warning func expr w =
     w\<lparr>warnings := warnings w @ [func @ '': assertion '' @ expr @ '' failed'']\<rparr>"

datatype error = UB_float_to_integer | Null_dereference

section \<open>Segment entries and media playlists\<close>

datatype playlist_type = GST_M3U8_PLAYLIST_TYPE_EVENT | GST_M3U8_PLAYLIST_TYPE_VOD

text \<open>
  Modelled from the spec: the declarations of \<^verbatim>\<open>GstM3U8Entry\<close> and
  \<^verbatim>\<open>GstM3U8Playlist\<close> are in \<^verbatim>\<open>gstm3u8playlist.h\<close>, which is not among the sources.
  The fields are those that \<^verbatim>\<open>gstm3u8playlist.c\<close> reads and writes, with the types of
  the parameters they are set from and of the data model of the specification (the
  sequence number an unsigned integer, the type one of the two values of the enum).
  The two file fields, both called \<^verbatim>\<open>file\<close> in the source, and \<^verbatim>\<open>length\<close> carry
  other names here.
\<close>

record GstM3U8Entry =
  duration :: gfloat
  title :: gstr
  url :: string
  entry_file :: gfile
  discontinuous :: bool
  length_bytes :: guint
  offset :: guint

record GstM3U8Playlist =
  name :: gstr
  base_url :: gstr
  bitrate :: gint
  version :: guint
  window_size :: guint
  allow_cache :: bool
  chunked :: bool
  type :: playlist_type
  end_list :: bool
  sequence_number :: guint
  entries :: "GstM3U8Entry list"
  playlist_file :: gfile

text \<open>
  \<^verbatim>\<open>gst_m3u8_entry_new\<close>, for a non-NULL url (the only caller passes the result of
  \<^verbatim>\<open>g_build_filename\<close>, which is never NULL): the fields are stored and the file is
  referenced once.
\<close>

definition gst_m3u8_entry_new ::
  "string \<Rightarrow> gfile \<Rightarrow> gstr \<Rightarrow> gfloat \<Rightarrow> guint \<Rightarrow> guint \<Rightarrow> bool \<Rightarrow> world \<Rightarrow> GstM3U8Entry \<times> world" where
  "gst_m3u8_entry_new u f t d len off disc w =
     (\<lparr>duration = d, title = t, url = u, entry_file = f, discontinuous = disc,
       length_bytes = len, offset = off\<rparr>,
      g_object_ref f w)"

definition gst_m3u8_entry_free :: "GstM3U8Entry \<Rightarrow> world \<Rightarrow> world" where
  "gst_m3u8_entry_free entry w = (if entry_file entry \<noteq> None then g_object_unref (entry_file entry) w else w)"

definition gst_m3u8_playlist_new ::
  "gstr \<Rightarrow> gstr \<Rightarrow> gfile \<Rightarrow> gint \<Rightarrow> guint \<Rightarrow> guint \<Rightarrow> bool \<Rightarrow> bool \<Rightarrow> world
     \<Rightarrow> GstM3U8Playlist \<times> world" where
  "gst_m3u8_playlist_new nm burl f br ver wsize cache chunked_arg w =
     (let w1 = g_object_ref f w;
          (chunked', w2) =
            (if \<not> chunked_arg \<and> ver < 4
             then (True, GST_WARNING ''Byteranges media segments are not supported for versions < 4'' w1)
             else (chunked_arg, w1))
      in (\<lparr>name = nm, base_url = burl, bitrate = br, version = ver, window_size = wsize,
            allow_cache = cache, chunked = chunked', type = GST_M3U8_PLAYLIST_TYPE_EVENT,
            end_list = False, sequence_number = 0, entries = [], playlist_file = f\<rparr>,
          w2))"

text \<open>The two statistics: a loop over the queue from the head, the result converted to \<^verbatim>\<open>guint\<close>.\<close>

definition gst_m3u8_playlist_target_duration :: "GstM3U8Playlist \<Rightarrow> guint option" where
  "gst_m3u8_playlist_target_duration playlist =
     f32_to_guint
       (foldl (\<lambda>target_duration entry.
                 if f32_gt (duration entry) target_duration then duration entry
                 else target_duration)
              (Finite 0) (entries playlist))"

definition gst_m3u8_playlist_duration :: "GstM3U8Playlist \<Rightarrow> guint option" where
  "gst_m3u8_playlist_duration playlist =
     f32_to_guint (foldl (\<lambda>d entry. f32_add d (duration entry)) (Finite 0) (entries playlist))"

text \<open>
  \<^verbatim>\<open>g_build_filename (base_url, path, NULL)\<close> of GLib: the argument list ends at the
  first NULL; empty elements are skipped; the separators between two elements are
  replaced by a single \<open>/\<close>; the leading separators of the first element and the
  trailing ones of the last are kept; an element made of separators only, when it is
  the only one that counts, is the result.
\<close>

definition is_sep :: "char \<Rightarrow> bool" where
  "is_sep c = (c = CHR ''/'')"

record build_path =
  result :: string
  is_first :: bool
  have_leading :: bool
  single_element :: "string option"
  last_trailing :: string

definition build_path_step :: "build_path \<Rightarrow> string \<Rightarrow> build_path" where
  "build_path_step st element =
     (if element = [] then st
      else
        let start = dropWhile is_sep element;
            core = rev (dropWhile is_sep (rev start));
            trailing = (if core = [] then element
                        else drop (length (takeWhile is_sep element) + length core) element);
            st1 = (if \<not> have_leading st
                   then st\<lparr>single_element := (if core = [] then Some element else single_element st),
                          result := result st @ takeWhile is_sep element,
                          have_leading := True\<rparr>
                   else st\<lparr>single_element := None\<rparr>);
            st2 = st1\<lparr>last_trailing := trailing\<rparr>
        in if core = [] then st2
           else st2\<lparr>result := result st2 @ (if is_first st2 then [] else ''/'') @ core,
                    is_first := False\<rparr>)"

definition g_build_path :: "string list \<Rightarrow> string" where
  "g_build_path elements =
     (let st = foldl build_path_step
                 \<lparr>result = [], is_first = True, have_leading = False,
                  single_element = None, last_trailing = []\<rparr> elements
      in case single_element st of Some s \<Rightarrow> s | None \<Rightarrow> result st @ last_trailing st)"

definition g_build_filename :: "gstr \<Rightarrow> gstr \<Rightarrow> string" where
  "g_build_filename first second =
     g_build_path (case first of None \<Rightarrow> []
                   | Some a \<Rightarrow> (case second of None \<Rightarrow> [a] | Some b \<Rightarrow> [a, b]))"

text \<open>
  The loop of \<^verbatim>\<open>gst_m3u8_playlist_add_entry\<close> that deletes old entries: while the total
  duration of the queue, as a \<^verbatim>\<open>guint\<close>, is at least the window size, the head is
  popped, its file referenced and prepended to \<open>old_files\<close>, and the entry freed.
  \<^verbatim>\<open>g_queue_pop_head\<close> returns NULL on an empty queue, which the loop body would
  dereference.
\<close>

definition g_queue_pop_head :: "'a list \<Rightarrow> 'a option \<times> 'a list" where
  "g_queue_pop_head q = (case q of [] \<Rightarrow> (None, []) | x # rest \<Rightarrow> (Some x, rest))"

function delete_old_entries ::
  "GstM3U8Playlist \<Rightarrow> world \<Rightarrow> gfile list \<Rightarrow> error + (GstM3U8Playlist \<times> world \<times> gfile list)" where
  "delete_old_entries playlist w old_files =
     (case gst_m3u8_playlist_duration playlist of
        None \<Rightarrow> Inl UB_float_to_integer
      | Some dur \<Rightarrow>
          if window_size playlist \<le> dur then
            (case g_queue_pop_head (entries playlist) of
               (None, _) \<Rightarrow> Inl Null_dereference
             | (Some old_entry, rest) \<Rightarrow>
                 delete_old_entries (playlist\<lparr>entries := rest\<rparr>)
                   (gst_m3u8_entry_free old_entry (g_object_ref (entry_file old_entry) w))
                   (entry_file old_entry # old_files))
          else Inr (playlist, w, old_files))"
  by pat_completeness auto
termination
  by (relation "measure (\<lambda>(playlist, w, old_files). length (entries playlist))")
     (auto simp: g_queue_pop_head_def split: list.splits)

declare delete_old_entries.simps [simp del]

text \<open>
  \<^verbatim>\<open>gst_m3u8_playlist_add_entry\<close> returns the list of old files, and \<^verbatim>\<open>FALSE\<close>, which
  is the NULL list, for a VOD playlist.  The result here is that list with the playlist
  and the world after the call.
\<close>

definition gst_m3u8_playlist_add_entry ::
  "GstM3U8Playlist \<Rightarrow> gstr \<Rightarrow> gfile \<Rightarrow> gstr \<Rightarrow> gfloat \<Rightarrow> guint \<Rightarrow> guint \<Rightarrow> guint \<Rightarrow> bool \<Rightarrow> world
     \<Rightarrow> error + (gfile list \<times> GstM3U8Playlist \<times> world)" where
  "gst_m3u8_playlist_add_entry playlist path f ttl d len off index disc w =
     (if type playlist = GST_M3U8_PLAYLIST_TYPE_VOD then Inr ([], playlist, w)
      else
        let entry_url = g_build_filename (base_url playlist) path;
            (entry, w1) = gst_m3u8_entry_new entry_url f ttl d len off disc w
        in case (if window_size playlist \<noteq> 0 then delete_old_entries playlist w1 []
                 else Inr (playlist, w1, [])) of
             Inl e \<Rightarrow> Inl e
           | Inr (playlist', w2, old_files) \<Rightarrow>
               Inr (old_files,
                    playlist'\<lparr>sequence_number := index + 1,
                              entries := entries playlist' @ [entry]\<rparr>,
                    w2))"

section \<open>Formatted output\<close>

text \<open>
  What \<^verbatim>\<open>g_string_append_printf\<close> prints: \<^verbatim>\<open>%d\<close> reads its argument as a signed
  32-bit integer, \<^verbatim>\<open>%u\<close> as an unsigned one, \<^verbatim>\<open>%s\<close> prints \<^verbatim>\<open>(null)\<close> for a NULL
  string.
\<close>

definition newline :: string where
  "newline = [CHR 0x0A]"

definition digit_char :: "int \<Rightarrow> char" where
  "digit_char d = ''0123456789'' ! nat d"

function decimal :: "int \<Rightarrow> string" where
  "decimal n = (if n < 10 then [digit_char n] else decimal (n div 10) @ [digit_char (n mod 10)])"
  by pat_completeness auto
termination
  by (relation "measure nat") auto

declare decimal.simps [simp del]

definition printf_u :: "guint \<Rightarrow> string" where
  "printf_u x = decimal (uint x)"

definition printf_d :: "gint \<Rightarrow> string" where
  "printf_d x = (if sint x < 0 then ''-'' @ decimal (- sint x) else decimal (sint x))"

definition printf_s :: "gstr \<Rightarrow> string" where
  "printf_s s = (case s of None \<Rightarrow> ''(null)'' | Some t \<Rightarrow> t)"

text \<open>
  \<^verbatim>\<open>g_ascii_dtostr\<close> of GLib formats a double with \<^verbatim>\<open>%.17g\<close> in the C locale: 17
  significant digits, correctly rounded; the exponent form when the decimal exponent
  is below \<open>-4\<close> or at least 17; trailing zeros of the fraction removed, and the point
  with them when nothing follows it.  Every \<^verbatim>\<open>gfloat\<close> is a double, so the argument is
  exact.  The sign of a NaN is not modelled.
\<close>

definition pow10 :: "int \<Rightarrow> rat" where
  "pow10 e = (if 0 \<le> e then 10 ^ nat e else 1 / 10 ^ nat (- e))"

text \<open>The number of decimal digits of a positive integer, and the decimal exponent of a
  positive rational: \<open>10^(ilog10 a) \<le> a < 10^(ilog10 a + 1)\<close>.\<close>

function ndigits :: "int \<Rightarrow> int" where
  "ndigits n = (if n \<le> 0 then 0 else ndigits (n div 10) + 1)"
  by pat_completeness auto
termination
  by (relation "measure nat") auto

declare ndigits.simps [simp del]

definition ilog10 :: "rat \<Rightarrow> int" where
  "ilog10 a = (if 1 \<le> a then ndigits \<lfloor>a\<rfloor> - 1 else - ndigits (\<lceil>1 / a\<rceil> - 1))"

definition strip_zeros :: "string \<Rightarrow> string" where
  "strip_zeros s = rev (dropWhile (\<lambda>c. c = CHR ''0'') (rev s))"

definition format_17g :: "rat \<Rightarrow> string" where
  "format_17g a =
     (let x0 = ilog10 a;
          n0 = round_half_even (a / pow10 (x0 - 16));
          x = (if n0 = 10 ^ 17 then x0 + 1 else x0);
          n = (if n0 = 10 ^ 17 then 10 ^ 16 else n0);
          ds = decimal n
      in if x < - 4 \<or> 17 \<le> x then
           (let frac = strip_zeros (tl ds);
                ex = decimal \<bar>x\<bar>
            in [hd ds] @ (if frac = [] then [] else ''.'' @ frac) @ ''e''
                 @ (if x < 0 then ''-'' else ''+'') @ (if length ex < 2 then ''0'' @ ex else ex))
         else if 0 \<le> x then
           (let frac = strip_zeros (drop (nat x + 1) ds)
            in take (nat x + 1) ds @ (if frac = [] then [] else ''.'' @ frac))
         else ''0.'' @ replicate (nat (- x - 1)) (CHR ''0'') @ strip_zeros ds)"

fun g_ascii_dtostr :: "gfloat \<Rightarrow> string" where
  "g_ascii_dtostr (Finite x) =
     (if x = 0 then ''0'' else if x < 0 then ''-'' @ format_17g (- x) else format_17g x)"
| "g_ascii_dtostr NZero = ''-0''"
| "g_ascii_dtostr PInf = ''inf''"
| "g_ascii_dtostr NInf = ''-inf''"
| "g_ascii_dtostr NaN = ''nan''"

section \<open>Rendering a media playlist\<close>

text \<open>The clock constants of GStreamer, in nanoseconds, as 64-bit integers.\<close>

definition GST_SECOND :: int where
  "GST_SECOND = 1000000000"

definition GST_MSECOND :: int where
  "GST_MSECOND = GST_SECOND div 1000"

text \<open>
  The integer that version 1 and 2 playlists print for an entry,
  \<^verbatim>\<open>(gint) ((entry->duration + 500 * GST_MSECOND) / GST_SECOND)\<close>, and the float that
  later versions print, \<^verbatim>\<open>entry->duration / GST_SECOND\<close>: the integer constants are
  converted to \<^verbatim>\<open>gfloat\<close> and the arithmetic is single precision.
\<close>

definition extinf_seconds :: "GstM3U8Entry \<Rightarrow> gint option" where
  "extinf_seconds entry =
     f32_to_gint (f32_div (f32_add (duration entry) (f32_of_int (500 * GST_MSECOND)))
                          (f32_of_int GST_SECOND))"

definition extinf_float :: "GstM3U8Entry \<Rightarrow> gfloat" where
  "extinf_float entry = f32_div (duration entry) (f32_of_int GST_SECOND)"

text \<open>The \<^verbatim>\<open>#EXTINF\<close> line of one entry, and the body of the loop over the entries.\<close>

definition render_extinf :: "guint \<Rightarrow> GstM3U8Entry \<Rightarrow> error + string" where
  "render_extinf ver entry =
     (let t = (case title entry of None \<Rightarrow> [] | Some s \<Rightarrow> s)
      in if ver < 3 then
           (case extinf_seconds entry of
              None \<Rightarrow> Inl UB_float_to_integer
            | Some secs \<Rightarrow> Inr (''#EXTINF:'' @ printf_d secs @ '','' @ t @ newline))
         else Inr (''#EXTINF:'' @ g_ascii_dtostr (extinf_float entry) @ '','' @ t @ newline))"

definition render_one :: "guint \<Rightarrow> GstM3U8Entry \<Rightarrow> error + string" where
  "render_one ver entry =
     (case render_extinf ver entry of
        Inl e \<Rightarrow> Inl e
      | Inr extinf \<Rightarrow>
          Inr ((if discontinuous entry then ''#EXT-X-DISCONTINUITY'' @ newline else [])
               @ extinf @ url entry @ newline))"

fun render_entries :: "guint \<Rightarrow> GstM3U8Entry list \<Rightarrow> error + string" where
  "render_entries ver [] = Inr []"
| "render_entries ver (entry # l) =
     (case render_one ver entry of
        Inl e \<Rightarrow> Inl e
      | Inr s \<Rightarrow> (case render_entries ver l of Inl e \<Rightarrow> Inl e | Inr rest \<Rightarrow> Inr (s @ rest)))"

definition media_sequence :: "GstM3U8Playlist \<Rightarrow> guint" where
  "media_sequence playlist = sequence_number playlist - word_of_nat (length (entries playlist))"

definition gst_m3u8_playlist_render :: "GstM3U8Playlist \<Rightarrow> error + string" where
  "gst_m3u8_playlist_render playlist =
     (case gst_m3u8_playlist_target_duration playlist of
        None \<Rightarrow> Inl UB_float_to_integer
      | Some target \<Rightarrow>
          (case render_entries (version playlist) (entries playlist) of
             Inl e \<Rightarrow> Inl e
           | Inr body \<Rightarrow>
               Inr (''#EXTM3U'' @ newline
                    @ ''#EXT-X-VERSION:'' @ printf_d (version playlist) @ newline
                    @ ''#EXT-X-ALLOW-CACHE:'' @ (if allow_cache playlist then ''YES'' else ''NO'') @ newline
                    @ ''#EXT-X-MEDIA-SEQUENCE:'' @ printf_d (media_sequence playlist) @ newline
                    @ ''#EXT-X-TARGETDURATION:'' @ printf_u target @ newline
                    @ newline
                    @ body
                    @ (if end_list playlist then ''#EXT-X-ENDLIST'' else []))))"

section \<open>The variant playlist\<close>

text \<open>
  The hash table of a variant playlist maps a name, compared as a string, to a pointer
  to a media playlist.  It is kept as the list of its pairs in the order in which
  \<^verbatim>\<open>g_hash_table_foreach\<close> visits them; GLib does not say where an insertion places a
  new pair in that order, and the model puts it last.  The playlists that the pointers
  lead to are in a store; \<^verbatim>\<open>g_str_hash\<close> reads its key, so a NULL key is a NULL
  dereference.  The checks of \<^verbatim>\<open>g_return_if_fail\<close> are compiled in, and a failed one
  is recorded with the warnings.
\<close>

text \<open>
  Modelled from the spec: the declaration of \<^verbatim>\<open>GstM3U8VariantPlaylist\<close> is in
  \<^verbatim>\<open>gstm3u8playlist.h\<close> too; its fields \<^verbatim>\<open>name\<close>, \<^verbatim>\<open>base_url\<close> and \<^verbatim>\<open>file\<close> carry
  the prefix \<open>variant\<close> here.
\<close>

type_synonym GHashTable = "(string \<times> nat) list"
type_synonym store = "nat \<Rightarrow> GstM3U8Playlist"

record GstM3U8VariantPlaylist =
  variant_name :: gstr
  variant_base_url :: gstr
  variant_file :: gfile
  variants :: GHashTable
  playlist_str :: "string option"

definition g_hash_table_lookup :: "GHashTable \<Rightarrow> string \<Rightarrow> nat option" where
  "g_hash_table_lookup table key = map_of table key"

definition g_hash_table_insert :: "GHashTable \<Rightarrow> string \<Rightarrow> nat \<Rightarrow> GHashTable" where
  "g_hash_table_insert table key v =
     (if key \<in> fst ` set table then map (\<lambda>(k, x). if k = key then (k, v) else (k, x)) table
      else table @ [(key, v)])"

definition g_hash_table_remove :: "GHashTable \<Rightarrow> string \<Rightarrow> GHashTable" where
  "g_hash_table_remove table key = filter (\<lambda>(k, x). k \<noteq> key) table"

definition gst_m3u8_variant_playlist_new ::
  "gstr \<Rightarrow> gstr \<Rightarrow> gfile \<Rightarrow> world \<Rightarrow> GstM3U8VariantPlaylist \<times> world" where
  "gst_m3u8_variant_playlist_new nm burl f w =
     (\<lparr>variant_name = nm, variant_base_url = burl, variant_file = f, variants = [],
       playlist_str = None\<rparr>,
      g_object_ref f w)"

definition render_variant :: "GstM3U8Playlist \<Rightarrow> string" where
  "render_variant playlist =
     ''#EXT-X-STREAM-INF:PROGRAM-ID=1,BANDWIDTH='' @ printf_d (bitrate playlist) @ newline
     @ printf_s (base_url playlist) @ ''/'' @ printf_s (name playlist) @ ''.m3u8'' @ newline"

definition gst_m3u8_variant_playlist_update ::
  "store \<Rightarrow> GstM3U8VariantPlaylist \<Rightarrow> GstM3U8VariantPlaylist" where
  "gst_m3u8_variant_playlist_update st playlist =
     playlist\<lparr>playlist_str :=
       Some (''#EXTM3U'' @ newline
             @ concat (map (\<lambda>(key, v). render_variant (st v)) (variants playlist)))\<rparr>"

definition gst_m3u8_variant_playlist_add_variant ::
  "store \<Rightarrow> GstM3U8VariantPlaylist \<Rightarrow> nat option \<Rightarrow> world
     \<Rightarrow> error + (bool \<times> GstM3U8VariantPlaylist \<times> world)" where
  "gst_m3u8_variant_playlist_add_variant st playlist variant w =
     (case variant of
        None \<Rightarrow> Inr (False, playlist,
                     g_return_if_fail_warning ''gst_m3u8_variant_playlist_add_variant''
                       ''variant != NULL'' w)
      | Some v \<Rightarrow>
          (case name (st v) of
             None \<Rightarrow> Inl Null_dereference
           | Some key \<Rightarrow>
               if g_hash_table_lookup (variants playlist) key \<noteq> None then Inr (False, playlist, w)
               else Inr (True,
                         gst_m3u8_variant_playlist_update st
                           (playlist\<lparr>variants := g_hash_table_insert (variants playlist) key v\<rparr>),
                         w)))"

definition gst_m3u8_variant_playlist_get_variant ::
  "GstM3U8VariantPlaylist \<Rightarrow> gstr \<Rightarrow> error + nat option" where
  "gst_m3u8_variant_playlist_get_variant playlist nm =
     (case nm of None \<Rightarrow> Inl Null_dereference
      | Some key \<Rightarrow> Inr (g_hash_table_lookup (variants playlist) key))"

text \<open>
  \<^verbatim>\<open>gst_m3u8_playlist_free (variant)\<close> is reached with \<open>variant = NULL\<close> only: its check
  refuses the pointer and nothing is freed.
\<close>

definition gst_m3u8_variant_playlist_remove_variant ::
  "store \<Rightarrow> GstM3U8VariantPlaylist \<Rightarrow> gstr \<Rightarrow> world
     \<Rightarrow> error + (bool \<times> GstM3U8VariantPlaylist \<times> world)" where
  "gst_m3u8_variant_playlist_remove_variant st playlist nm w =
     (case nm of
        None \<Rightarrow> Inl Null_dereference
      | Some key \<Rightarrow>
          (case g_hash_table_lookup (variants playlist) key of
             Some variant \<Rightarrow> Inr (False, playlist, w)
           | None \<Rightarrow>
               Inr (True,
                    gst_m3u8_variant_playlist_update st
                      (playlist\<lparr>variants := g_hash_table_remove (variants playlist) key\<rparr>),
                    g_return_if_fail_warning ''gst_m3u8_playlist_free'' ''playlist != NULL'' w)))"

definition gst_m3u8_variant_playlist_render :: "GstM3U8VariantPlaylist \<Rightarrow> error + string" where
  "gst_m3u8_variant_playlist_render playlist =
     (case playlist_str playlist of None \<Rightarrow> Inl Null_dereference | Some s \<Rightarrow> Inr s)"

section \<open>Callers and example states\<close>

text \<open>
  A caller that adds segments one after the other, numbering them from \<open>index\<close> on, and
  collects the lists of old files that the calls return.  One segment is the argument
  list of \<^verbatim>\<open>gst_m3u8_playlist_add_entry\<close> without the index.
\<close>

type_synonym segment = "gstr \<times> gfile \<times> gstr \<times> gfloat \<times> guint \<times> guint \<times> bool"

fun add_entries ::
  "GstM3U8Playlist \<Rightarrow> world \<Rightarrow> guint \<Rightarrow> segment list
     \<Rightarrow> error + (gfile list list \<times> GstM3U8Playlist \<times> world)" where
  "add_entries playlist w index [] = Inr ([], playlist, w)"
| "add_entries playlist w index ((path, f, ttl, d, len, off, disc) # rest) =
     (case gst_m3u8_playlist_add_entry playlist path f ttl d len off index disc w of
        Inl e \<Rightarrow> Inl e
      | Inr (old_files, playlist', w') \<Rightarrow>
          (case add_entries playlist' w' (index + 1) rest of
             Inl e \<Rightarrow> Inl e
           | Inr (olds, playlist'', w'') \<Rightarrow> Inr (old_files # olds, playlist'', w'')))"

text \<open>A world in which every object has one reference, held by the caller.\<close>

definition world0 :: world where
  "world0 = \<lparr>refs = (\<lambda>a. 1), warnings = []\<rparr>"

definition example_new :: "guint \<Rightarrow> guint \<Rightarrow> bool \<Rightarrow> GstM3U8Playlist \<times> world" where
  "example_new ver wsize chunked_arg =
     gst_m3u8_playlist_new (Some ''low'') (Some ''http://example.com/live'') (Some 0) 300000
       ver wsize True chunked_arg world0"

text \<open>The segment number \<open>k\<close> of an example: its file is the object \<open>k\<close>.\<close>

definition example_segment :: "nat \<Rightarrow> rat \<Rightarrow> segment" where
  "example_segment k d = (Some ''segment.ts'', Some k, None, Finite d, 0, 0, False)"

text \<open>
  What the examples look at: the files returned, and the file and the duration of every
  entry of the queue after the call.
\<close>

definition queue_view ::
  "error + ('a \<times> GstM3U8Playlist \<times> world) \<Rightarrow> error + ('a \<times> (gfile \<times> gfloat) list)" where
  "queue_view r =
     (case r of Inl e \<Rightarrow> Inl e
      | Inr (old, playlist, w) \<Rightarrow>
          Inr (old, map (\<lambda>entry. (entry_file entry, duration entry)) (entries playlist)))"



text \<open>
  The state of an example: a new playlist of the given version and window size to which
  the listed segments (file, duration) were added with the indices 0, 1, 2, ...; and
  one more call of \<^verbatim>\<open>gst_m3u8_playlist_add_entry\<close> on such a state.
\<close>

definition example_state :: "guint \<Rightarrow> guint \<Rightarrow> (nat \<times> rat) list \<Rightarrow> GstM3U8Playlist \<times> world" where
  "example_state ver wsize segs =
     (case add_entries (fst (example_new ver wsize True)) (snd (example_new ver wsize True)) 0
             (map (\<lambda>(k, d). example_segment k d) segs) of
        Inr (olds, playlist, w) \<Rightarrow> (playlist, w)
      | Inl e \<Rightarrow> example_new ver wsize True)"

definition example_add ::
  "GstM3U8Playlist \<times> world \<Rightarrow> nat \<Rightarrow> rat \<Rightarrow> guint
     \<Rightarrow> error + (gfile list \<times> GstM3U8Playlist \<times> world)" where
  "example_add s k d index =
     gst_m3u8_playlist_add_entry (fst s) (Some ''segment.ts'') (Some k) None (Finite d) 0 0 index
       False (snd s)"

text \<open>
  Two media playlists in a store, both named \<open>low\<close>, at the addresses 1 and 2 (any
  other address holds the second one), and the variant playlist that holds the first.
\<close>

definition example_store :: store where
  "example_store a =
     (if a = 1
      then fst (gst_m3u8_playlist_new (Some ''low'') (Some ''http://example.com/a'') (Some 0)
                  100000 3 0 True True world0)
      else fst (gst_m3u8_playlist_new (Some ''low'') (Some ''http://example.com/b'') (Some 0)
                  200000 3 0 True True world0))"

definition example_registry :: GstM3U8VariantPlaylist where
  "example_registry =
     \<lparr>variant_name = Some ''master'', variant_base_url = Some ''http://example.com'',
      variant_file = Some 9, variants = [(''low'', 1)],
      playlist_str =
        Some (''#EXTM3U'' @ newline
              @ ''#EXT-X-STREAM-INF:PROGRAM-ID=1,BANDWIDTH=100000'' @ newline
              @ ''http://example.com/a/low.m3u8'' @ newline)\<rparr>"

text \<open>
  The target duration in the words of the specification: the maximum duration over all
  entries of the queue, truncated to an integer, and 0 for an empty queue.  It is stated
  for durations that are finite and not negative.
\<close>

fun nonneg_finite :: "gfloat \<Rightarrow> bool" where
  "nonneg_finite (Finite x) = (0 \<le> x)"
| "nonneg_finite _ = False"

definition spec_target_duration :: "GstM3U8Entry list \<Rightarrow> int" where
  "spec_target_duration es =
     (if es = [] then 0
      else truncate_rat (Max (set (map (\<lambda>entry. f32_value (duration entry)) es))))"

text \<open>The end-to-end example of the specification: ten segments of duration 2.0.\<close>

definition ten_segments :: "(nat \<times> rat) list" where
  "ten_segments =
     [(1, 2), (2, 2), (3, 2), (4, 2), (5, 2), (6, 2), (7, 2), (8, 2), (9, 2), (10, 2)]"

text \<open>
  What the loop of \<^verbatim>\<open>gst_m3u8_playlist_target_duration\<close> leaves when no duration is
  \<open>+\<infinity>\<close>: the maximum of 0, where the loop starts, and the durations (a NaN, a
  \<open>-\<infinity>\<close> or a negative zero never exceeds it and counts as 0).
\<close>

definition clamped_max :: "GstM3U8Entry list \<Rightarrow> rat" where
  "clamped_max es = Max (insert 0 (set (map (\<lambda>entry. f32_value (duration entry)) es)))"



section \<open>The arithmetic on known values\<close>

text \<open>
  Values that any IEEE 754 implementation gives: the float nearest to 0.1, ties going to
  the even significand at \<open>2^24\<close>, and the output of \<^verbatim>\<open>%.17g\<close> for floats.
\<close>

lemma f32_round_known_values:
  "f32_round (1 / 10) = Finite (13421773 / 134217728)"
  "f32_round 16777217 = Finite 16777216"
  "f32_round 16777219 = Finite 16777220"
  by code_simp+

lemma f32_add_known_values:
  "f32_add (Finite 16777216) (Finite 1) = Finite 16777216"
  "f32_add (Finite 16777218) (Finite 1) = Finite 16777220"
  "f32_add (Finite (1 / 2)) (Finite (1 / 4)) = Finite (3 / 4)"
  "f32_add PInf NInf = NaN"
  by code_simp+

lemma g_ascii_dtostr_known_values:
  "g_ascii_dtostr (f32_round (1 / 10)) = ''0.10000000149011612''"
  "g_ascii_dtostr (Finite (5 / 2)) = ''2.5''"
  "g_ascii_dtostr (Finite 100000000000000000) = ''1e+17''"
  "g_ascii_dtostr (f32_round (1 / 100000)) = ''9.9999997473787516e-06''"
  by code_simp+

section \<open>Construction\<close>

text \<open>
  C7: a playlist requested with \<open>chunked = false\<close> and a version below 4 is constructed
  with \<open>chunked = true\<close>, and one warning is emitted; with a version of at least 4, or
  with \<open>chunked = true\<close>, the requested value is kept and nothing is emitted.
  Construction always returns a playlist.
\<close>

theorem playlist_new_chunked_gate:
  "(\<not> c \<and> ver < 4 \<longrightarrow>
      chunked (fst (gst_m3u8_playlist_new nm burl f br ver wsize cache c w)) = True \<and>
      warnings (snd (gst_m3u8_playlist_new nm burl f br ver wsize cache c w)) =
        warnings w @ [''Byteranges media segments are not supported for versions < 4'']) \<and>
   (4 \<le> ver \<or> c \<longrightarrow>
      chunked (fst (gst_m3u8_playlist_new nm burl f br ver wsize cache c w)) = c \<and>
      warnings (snd (gst_m3u8_playlist_new nm burl f br ver wsize cache c w)) = warnings w)"
proof (cases "\<not> c \<and> ver < 4")
  case True
  then show ?thesis
    by (auto simp: gst_m3u8_playlist_new_def g_object_ref_def GST_WARNING_def
        split: option.splits)
next
  case False
  then show ?thesis
    by (auto simp: gst_m3u8_playlist_new_def g_object_ref_def GST_WARNING_def
        split: option.splits)
qed

theorem playlist_new_chunked_gate_witness:
  "chunked (fst (example_new 3 0 False)) = True \<and>
   warnings (snd (example_new 3 0 False)) =
     [''Byteranges media segments are not supported for versions < 4''] \<and>
   chunked (fst (example_new 4 0 False)) = False \<and>
   warnings (snd (example_new 4 0 False)) = [] \<and>
   chunked (fst (example_new 3 0 True)) = True \<and>
   warnings (snd (example_new 3 0 True)) = []"
  using playlist_new_chunked_gate [of False 3 "Some ''low''" "Some ''http://example.com/live''"
      "Some 0" 300000 0 True world0]
    playlist_new_chunked_gate [of False 4 "Some ''low''" "Some ''http://example.com/live''"
      "Some 0" 300000 0 True world0]
    playlist_new_chunked_gate [of True 3 "Some ''low''" "Some ''http://example.com/live''"
      "Some 0" 300000 0 True world0]
  by (simp add: example_new_def world0_def)

section \<open>Adding an entry\<close>

text \<open>
  C6: on a playlist whose type is VOD, \<^verbatim>\<open>gst_m3u8_playlist_add_entry\<close> returns
  \<^verbatim>\<open>FALSE\<close>, the NULL list, and changes neither the playlist (its queue and every other
  field) nor a reference count.
\<close>

theorem add_entry_vod_rejected:
  "type playlist = GST_M3U8_PLAYLIST_TYPE_VOD \<Longrightarrow>
   gst_m3u8_playlist_add_entry playlist path f ttl d len off index disc w = Inr ([], playlist, w)"
  by (simp add: gst_m3u8_playlist_add_entry_def)

theorem add_entry_vod_rejected_witness:
  "type (fst (example_new 3 10 True)\<lparr>type := GST_M3U8_PLAYLIST_TYPE_VOD\<rparr>) = GST_M3U8_PLAYLIST_TYPE_VOD \<and>
   gst_m3u8_playlist_add_entry (fst (example_new 3 10 True)\<lparr>type := GST_M3U8_PLAYLIST_TYPE_VOD\<rparr>)
     (Some ''segment.ts'') (Some 1) None (Finite 2) 0 0 0 False world0
   = Inr ([], fst (example_new 3 10 True)\<lparr>type := GST_M3U8_PLAYLIST_TYPE_VOD\<rparr>, world0)"
  using add_entry_vod_rejected [of "fst (example_new 3 10 True)\<lparr>type := GST_M3U8_PLAYLIST_TYPE_VOD\<rparr>"
      "Some ''segment.ts''" "Some 1" None "Finite 2" 0 0 0 False world0]
  by simp

text \<open>The loop that deletes old entries: what it returns.\<close>

lemma entry_free_after_ref: "gst_m3u8_entry_free e (g_object_ref (entry_file e) w) = w"
  by (cases "entry_file e")
     (simp_all add: gst_m3u8_entry_free_def g_object_ref_def g_object_unref_def)

lemma duration_of_empty_queue:
  "entries p = [] \<Longrightarrow> gst_m3u8_playlist_duration p = Some 0"
  by (simp add: gst_m3u8_playlist_duration_def truncate_rat_def)

lemma delete_old_entries_result:
  "delete_old_entries p w old = Inr (p', w', old') \<Longrightarrow>
   \<exists>k\<le>length (entries p).
     p' = p\<lparr>entries := drop k (entries p)\<rparr> \<and> w' = w \<and>
     old' = rev (map entry_file (take k (entries p))) @ old \<and>
     (\<exists>n. gst_m3u8_playlist_duration p' = Some n \<and> n < window_size p)"
proof (induction p w old arbitrary: p' w' old' rule: delete_old_entries.induct)
  case (1 playlist w old_files)
  from "1.prems" obtain dur where dur: "gst_m3u8_playlist_duration playlist = Some dur"
    by (auto simp: delete_old_entries.simps [of playlist] split: option.splits)
  show ?case
  proof (cases "window_size playlist \<le> dur")
    case False
    with "1.prems" dur have "p' = playlist" "w' = w" "old' = old_files"
      by (auto simp: delete_old_entries.simps [of playlist])
    with False dur show ?thesis
      by (intro exI [of _ 0]) auto
  next
    case True
    with "1.prems" dur obtain e rest where q: "entries playlist = e # rest"
      by (cases "entries playlist")
         (auto simp: delete_old_entries.simps [of playlist] g_queue_pop_head_def)
    with "1.prems" dur True
    have rec: "delete_old_entries (playlist\<lparr>entries := rest\<rparr>) w (entry_file e # old_files)
               = Inr (p', w', old')"
      by (simp add: delete_old_entries.simps [of playlist] g_queue_pop_head_def
          entry_free_after_ref)
    have pop: "(Some e, rest) = g_queue_pop_head (entries playlist)"
      by (simp add: q g_queue_pop_head_def)
    from "1.IH" [OF dur True pop refl, unfolded entry_free_after_ref, OF rec]
    obtain k where k: "k \<le> length rest" "p' = playlist\<lparr>entries := drop k rest\<rparr>" "w' = w"
      "old' = rev (map entry_file (take k rest)) @ entry_file e # old_files"
      "\<exists>n. gst_m3u8_playlist_duration p' = Some n \<and> n < window_size playlist"
      by auto
    then show ?thesis
      by (intro exI [of _ "Suc k"]) (auto simp: q)
  qed
qed

text \<open>
  The loop never pops an empty queue: the total duration of an empty queue is 0, which
  is below every nonzero window size.
\<close>

lemma delete_old_entries_no_null:
  "window_size p \<noteq> 0 \<Longrightarrow> delete_old_entries p w old \<noteq> Inl Null_dereference"
proof (induction p w old rule: delete_old_entries.induct)
  case (1 playlist w old_files)
  show ?case
  proof (cases "entries playlist")
    case Nil
    with "1.prems" show ?thesis
      by (simp add: delete_old_entries.simps [of playlist] duration_of_empty_queue word_le_0_iff)
  next
    case (Cons e rest)
    have pop: "(Some e, rest) = g_queue_pop_head (entries playlist)"
      by (simp add: Cons g_queue_pop_head_def)
    show ?thesis
    proof (cases "gst_m3u8_playlist_duration playlist")
      case None
      then show ?thesis by (simp add: delete_old_entries.simps [of playlist])
    next
      case (Some dur)
      show ?thesis
      proof (cases "window_size playlist \<le> dur")
        case True
        from "1.IH" [OF Some True pop refl] "1.prems"
        show ?thesis
          by (simp add: delete_old_entries.simps [of playlist] Some True Cons g_queue_pop_head_def)
      next
        case False
        then show ?thesis by (simp add: delete_old_entries.simps [of playlist] Some)
      qed
    qed
  qed
qed

text \<open>
  An accepted call that returns: \<open>k\<close> entries were popped from the head, their files
  are returned last-popped first, the new entry is appended, and the world has one
  reference more, the new entry's.
\<close>

lemma add_entry_result:
  assumes "type p \<noteq> GST_M3U8_PLAYLIST_TYPE_VOD"
    and "gst_m3u8_playlist_add_entry p path f ttl d len off index disc w = Inr (old_files, p', w')"
  shows "\<exists>k\<le>length (entries p).
           old_files = rev (map entry_file (take k (entries p))) \<and>
           p' = p\<lparr>sequence_number := index + 1,
                  entries := drop k (entries p) @
                    [\<lparr>duration = d, title = ttl, url = g_build_filename (base_url p) path,
                      entry_file = f, discontinuous = disc, length_bytes = len, offset = off\<rparr>]\<rparr> \<and>
           w' = g_object_ref f w \<and>
           (if window_size p = 0 then k = 0
            else \<exists>n. gst_m3u8_playlist_duration (p\<lparr>entries := drop k (entries p)\<rparr>) = Some n \<and>
                     n < window_size p)"
proof (cases "window_size p = 0")
  case True
  with assms show ?thesis
    by (intro exI [of _ 0])
       (auto simp: gst_m3u8_playlist_add_entry_def gst_m3u8_entry_new_def)
next
  case False
  with assms obtain q w2 where
    del: "delete_old_entries p (g_object_ref f w) [] = Inr (q, w2, old_files)" and
    p': "p' = q\<lparr>sequence_number := index + 1,
                 entries := entries q @
                   [\<lparr>duration = d, title = ttl, url = g_build_filename (base_url p) path,
                     entry_file = f, discontinuous = disc, length_bytes = len, offset = off\<rparr>]\<rparr>" and
    w': "w' = w2"
    by (auto simp: gst_m3u8_playlist_add_entry_def gst_m3u8_entry_new_def
        split: sum.splits)
  from delete_old_entries_result [OF del] obtain k where
    k: "k \<le> length (entries p)" "q = p\<lparr>entries := drop k (entries p)\<rparr>"
      "w2 = g_object_ref f w" "old_files = rev (map entry_file (take k (entries p)))"
      "\<exists>n. gst_m3u8_playlist_duration q = Some n \<and> n < window_size p"
    by auto
  with False p' w' show ?thesis
    by (intro exI [of _ k]) auto
qed

lemma queue_view_Inr:
  "queue_view r = Inr v \<Longrightarrow> r = Inr (fst (projr r), fst (snd (projr r)), snd (snd (projr r)))"
  by (cases r) (auto simp: queue_view_def)

text \<open>
  C10, as the code has it: an accepted call that returns leaves the queue as the old
  queue without the entries it evicted from the head, followed by the new entry.  The
  length grows by one less the number of evicted entries; the new entry is the last
  one, and is never evicted by the call that adds it.
\<close>

theorem add_entry_appends_new_entry:
  assumes "type p \<noteq> GST_M3U8_PLAYLIST_TYPE_VOD"
    and "gst_m3u8_playlist_add_entry p path f ttl d len off index disc w = Inr (old_files, p', w')"
  shows "entries p' = drop (length old_files) (entries p) @
           [\<lparr>duration = d, title = ttl, url = g_build_filename (base_url p) path,
             entry_file = f, discontinuous = disc, length_bytes = len, offset = off\<rparr>] \<and>
         length old_files \<le> length (entries p) \<and>
         length (entries p') + length old_files = length (entries p) + 1"
proof -
  from add_entry_result [OF assms] obtain k where k: "k \<le> length (entries p)"
    "old_files = rev (map entry_file (take k (entries p)))"
    "entries p' = drop k (entries p) @
       [\<lparr>duration = d, title = ttl, url = g_build_filename (base_url p) path,
         entry_file = f, discontinuous = disc, length_bytes = len, offset = off\<rparr>]"
    by auto
  from k(1,2) have "length old_files = k" by simp
  with k show ?thesis by simp
qed

text \<open>
  With window size 5 and the durations 4 and 3 in the queue, adding an entry of duration
  7 evicts the first entry and keeps the new one, longer than the window, at the tail.
\<close>

theorem add_entry_appends_new_entry_witness:
  "type (fst (example_state 3 5 [(1, 4), (2, 3)])) \<noteq> GST_M3U8_PLAYLIST_TYPE_VOD \<and>
   queue_view (example_add (example_state 3 5 [(1, 4), (2, 3)]) 3 7 2)
     = Inr ([Some 1], [(Some 2, Finite 3), (Some 3, Finite 7)]) \<and>
   length (entries (fst (snd (projr (example_add (example_state 3 5 [(1, 4), (2, 3)]) 3 7 2)))))
     + length (fst (projr (example_add (example_state 3 5 [(1, 4), (2, 3)]) 3 7 2)))
     = length (entries (fst (example_state 3 5 [(1, 4), (2, 3)]))) + 1"
proof -
  have ty: "type (fst (example_state 3 5 [(1, 4), (2, 3)])) \<noteq> GST_M3U8_PLAYLIST_TYPE_VOD"
    by code_simp
  have v: "queue_view (example_add (example_state 3 5 [(1, 4), (2, 3)]) 3 7 2)
             = Inr ([Some 1], [(Some 2, Finite 3), (Some 3, Finite 7)])"
    by code_simp
  from add_entry_appends_new_entry [OF ty queue_view_Inr [OF v, unfolded example_add_def]]
  show ?thesis using ty v by (simp add: example_add_def)
qed

text \<open>
  C10 as stated fails: a playlist with window size 5 holds one entry of duration 10;
  the next call evicts it and appends the new entry, so the queue has one entry before
  and one after.
\<close>

theorem add_entry_length_counterexample:
  "type (fst (example_state 3 5 [(1, 10)])) \<noteq> GST_M3U8_PLAYLIST_TYPE_VOD \<and>
   length (entries (fst (example_state 3 5 [(1, 10)]))) = 1 \<and>
   queue_view (example_add (example_state 3 5 [(1, 10)]) 2 2 1)
     = Inr ([Some 1], [(Some 2, Finite 2)])"
  by code_simp

text \<open>
  C2, as the code has it: an accepted call that returns hands back the files of the
  entries it evicted from the head of the queue, each once, the file of the entry
  evicted last first (\<^verbatim>\<open>g_list_prepend\<close>); the list is empty when nothing was
  evicted.  The reference that an evicted entry held is not released: the only change
  of a reference count is the reference taken for the new entry.
\<close>

theorem add_entry_returns_evicted_files:
  assumes "type p \<noteq> GST_M3U8_PLAYLIST_TYPE_VOD"
    and "gst_m3u8_playlist_add_entry p path f ttl d len off index disc w = Inr (old_files, p', w')"
  shows "old_files = rev (map entry_file (take (length old_files) (entries p))) \<and>
         butlast (entries p') = drop (length old_files) (entries p) \<and>
         (\<forall>a. refs w' a = refs w a + (if f = Some a then 1 else 0))"
proof -
  from add_entry_result [OF assms] obtain k where k: "k \<le> length (entries p)"
    "old_files = rev (map entry_file (take k (entries p)))"
    "entries p' = drop k (entries p) @
       [\<lparr>duration = d, title = ttl, url = g_build_filename (base_url p) path,
         entry_file = f, discontinuous = disc, length_bytes = len, offset = off\<rparr>]"
    "w' = g_object_ref f w"
    by auto
  from k(1,2) have len: "length old_files = k" by simp
  have "refs (g_object_ref f w) a = refs w a + (if f = Some a then 1 else 0)" for a
    by (cases f) (simp_all add: g_object_ref_def)
  with k len show ?thesis by simp
qed

theorem add_entry_returns_evicted_files_witness:
  "type (fst (example_state 3 5 [(1, 1), (2, 10)])) \<noteq> GST_M3U8_PLAYLIST_TYPE_VOD \<and>
   map entry_file (entries (fst (example_state 3 5 [(1, 1), (2, 10)]))) = [Some 1, Some 2] \<and>
   queue_view (example_add (example_state 3 5 [(1, 1), (2, 10)]) 3 2 2)
     = Inr ([Some 2, Some 1], [(Some 3, Finite 2)]) \<and>
   fst (projr (example_add (example_state 3 5 [(1, 1), (2, 10)]) 3 2 2))
     = rev (map entry_file
         (take (length (fst (projr (example_add (example_state 3 5 [(1, 1), (2, 10)]) 3 2 2))))
           (entries (fst (example_state 3 5 [(1, 1), (2, 10)])))))"
proof -
  have ty: "type (fst (example_state 3 5 [(1, 1), (2, 10)])) \<noteq> GST_M3U8_PLAYLIST_TYPE_VOD"
    by code_simp
  have q: "map entry_file (entries (fst (example_state 3 5 [(1, 1), (2, 10)]))) = [Some 1, Some 2]"
    by code_simp
  have v: "queue_view (example_add (example_state 3 5 [(1, 1), (2, 10)]) 3 2 2)
             = Inr ([Some 2, Some 1], [(Some 3, Finite 2)])"
    by code_simp
  from add_entry_returns_evicted_files [OF ty queue_view_Inr [OF v, unfolded example_add_def]]
  show ?thesis using ty q v by (simp add: example_add_def)
qed

text \<open>
  C2 as stated fails in the order: the queue holds the files 1 (oldest) and 2, one call
  evicts both, and the list it returns is 2, 1.
\<close>

theorem add_entry_old_files_order_counterexample:
  "type (fst (example_state 3 5 [(1, 1), (2, 10)])) \<noteq> GST_M3U8_PLAYLIST_TYPE_VOD \<and>
   window_size (fst (example_state 3 5 [(1, 1), (2, 10)])) = 5 \<and>
   map entry_file (entries (fst (example_state 3 5 [(1, 1), (2, 10)]))) = [Some 1, Some 2] \<and>
   queue_view (example_add (example_state 3 5 [(1, 1), (2, 10)]) 3 2 2)
     = Inr ([Some 2, Some 1], [(Some 3, Finite 2)])"
  by code_simp





section \<open>The variant registry\<close>

lemma lookup_insert_new:
  assumes "g_hash_table_lookup t key = None"
  shows "g_hash_table_lookup (g_hash_table_insert t key v) k
         = (if k = key then Some v else g_hash_table_lookup t k)"
proof -
  from assms have absent: "key \<notin> fst ` set t"
    by (simp add: g_hash_table_lookup_def map_of_eq_None_iff)
  then have "g_hash_table_insert t key v = t @ [(key, v)]"
    by (simp add: g_hash_table_insert_def)
  with assms show ?thesis
    by (auto simp: g_hash_table_lookup_def map_add_def split: option.splits)
qed

lemma remove_absent:
  assumes "g_hash_table_lookup t key = None"
  shows "g_hash_table_remove t key = t"
proof -
  from assms have "key \<notin> fst ` set t"
    by (simp add: g_hash_table_lookup_def map_of_eq_None_iff)
  then have "\<forall>x\<in>set t. (case x of (k, y) \<Rightarrow> k \<noteq> key)"
    by force
  then show ?thesis
    by (simp add: g_hash_table_remove_def)
qed

text \<open>
  C8: adding a variant whose name is already registered returns \<^verbatim>\<open>FALSE\<close> and leaves
  the registry as it was, so that the name still leads to the playlist registered
  first.  Otherwise the call returns \<^verbatim>\<open>TRUE\<close>; afterwards the name leads to the new
  variant, every other name leads where it led before, and the cached text is the
  header followed by the two lines of every variant of the table.
\<close>

theorem add_variant_first_write_wins:
  assumes "name (st v) = Some key"
  shows "if g_hash_table_lookup (variants r) key \<noteq> None
         then gst_m3u8_variant_playlist_add_variant st r (Some v) w = Inr (False, r, w)
         else \<exists>r'. gst_m3u8_variant_playlist_add_variant st r (Some v) w = Inr (True, r', w) \<and>
                gst_m3u8_variant_playlist_get_variant r' (Some key) = Inr (Some v) \<and>
                (\<forall>k. k \<noteq> key \<longrightarrow>
                   gst_m3u8_variant_playlist_get_variant r' (Some k)
                   = gst_m3u8_variant_playlist_get_variant r (Some k)) \<and>
                gst_m3u8_variant_playlist_render r'
                  = Inr (''#EXTM3U'' @ newline
                         @ concat (map (\<lambda>(k, x). render_variant (st x)) (variants r')))"
  using assms
  by (auto simp: gst_m3u8_variant_playlist_add_variant_def gst_m3u8_variant_playlist_update_def
      gst_m3u8_variant_playlist_get_variant_def gst_m3u8_variant_playlist_render_def
      lookup_insert_new)

text \<open>
  The example of the specification: adding the playlist at address 1, named \<open>low\<close>, to
  an empty registry is accepted; adding the playlist at address 2, also named \<open>low\<close>,
  is then refused, and \<open>low\<close> still leads to address 1.
\<close>

theorem add_variant_first_write_wins_witness:
  "name (example_store 1) = Some ''low'' \<and>
   gst_m3u8_variant_playlist_add_variant example_store
     (example_registry\<lparr>variants := [], playlist_str := None\<rparr>) (Some 1) world0
     = Inr (True, example_registry, world0) \<and>
   name (example_store 2) = Some ''low'' \<and>
   gst_m3u8_variant_playlist_get_variant example_registry (Some ''low'') = Inr (Some 1) \<and>
   gst_m3u8_variant_playlist_add_variant example_store example_registry (Some 2) world0
     = Inr (False, example_registry, world0)"
proof -
  have n1: "name (example_store 1) = Some ''low''" and n2: "name (example_store 2) = Some ''low''"
    by (simp_all add: example_store_def gst_m3u8_playlist_new_def)
  have get: "gst_m3u8_variant_playlist_get_variant example_registry (Some ''low'') = Inr (Some 1)"
    by (simp add: example_registry_def gst_m3u8_variant_playlist_get_variant_def
        g_hash_table_lookup_def)
  have accepted: "gst_m3u8_variant_playlist_add_variant example_store
     (example_registry\<lparr>variants := [], playlist_str := None\<rparr>) (Some 1) world0
     = Inr (True, example_registry, world0)"
    by (simp add: gst_m3u8_variant_playlist_add_variant_def n1 g_hash_table_lookup_def
        g_hash_table_insert_def gst_m3u8_variant_playlist_update_def example_registry_def
        render_variant_def example_store_def gst_m3u8_playlist_new_def printf_d_def printf_s_def
        decimal.simps digit_char_def)
  from add_variant_first_write_wins [of example_store 2 "''low''" example_registry world0] n2 get
  have "gst_m3u8_variant_playlist_add_variant example_store example_registry (Some 2) world0
     = Inr (False, example_registry, world0)"
    by (simp add: gst_m3u8_variant_playlist_get_variant_def)
  with n1 n2 get accepted show ?thesis by simp
qed

text \<open>
  C9: removing a name that is registered returns \<^verbatim>\<open>FALSE\<close> and changes nothing;
  removing a name that is not registered returns \<^verbatim>\<open>TRUE\<close>, removes no variant, and
  only renders the cached text again.
\<close>

theorem remove_variant_inverted:
  "if g_hash_table_lookup (variants r) key \<noteq> None
   then gst_m3u8_variant_playlist_remove_variant st r (Some key) w = Inr (False, r, w)
   else \<exists>w'. gst_m3u8_variant_playlist_remove_variant st r (Some key) w
                = Inr (True, gst_m3u8_variant_playlist_update st r, w') \<and>
              variants (gst_m3u8_variant_playlist_update st r) = variants r"
  by (auto simp: gst_m3u8_variant_playlist_remove_variant_def gst_m3u8_variant_playlist_update_def
      remove_absent)

theorem remove_variant_inverted_witness:
  "gst_m3u8_variant_playlist_remove_variant example_store example_registry (Some ''low'') world0
     = Inr (False, example_registry, world0) \<and>
   (\<exists>w'. gst_m3u8_variant_playlist_remove_variant example_store example_registry (Some ''high'')
            world0 = Inr (True, example_registry, w'))"
  using remove_variant_inverted [of example_registry "''low''" example_store world0]
    remove_variant_inverted [of example_registry "''high''" example_store world0]
  by (simp add: example_store_def example_registry_def gst_m3u8_playlist_new_def
      g_hash_table_lookup_def gst_m3u8_variant_playlist_update_def render_variant_def
      printf_d_def printf_s_def decimal.simps digit_char_def)

section \<open>Rendering\<close>





text \<open>The loop of \<^verbatim>\<open>gst_m3u8_playlist_target_duration\<close> computes a maximum.\<close>

lemma Max_insert_max:
  "finite S \<Longrightarrow> Max (insert (max a x) S) = Max (insert a (insert x S))" for a :: rat
  by (cases "S = {}") (simp_all add: max.assoc)

lemma target_fold_PInf:
  "foldl (\<lambda>target_duration entry.
            if f32_gt (duration entry) target_duration then duration entry else target_duration)
         PInf es = PInf"
proof (induction es)
  case Nil
  then show ?case by simp
next
  case (Cons e es)
  have "\<not> f32_gt (duration e) PInf" by (cases "duration e") simp_all
  with Cons.IH show ?case by simp
qed

lemma target_fold:
  "0 \<le> a \<Longrightarrow>
   foldl (\<lambda>target_duration entry.
            if f32_gt (duration entry) target_duration then duration entry else target_duration)
         (Finite a) es
   = (if PInf \<in> set (map duration es) then PInf
      else Finite (Max (insert a (set (map (\<lambda>entry. f32_value (duration entry)) es)))))"
proof (induction es arbitrary: a)
  case Nil
  then show ?case by simp
next
  case (Cons e es)
  let ?step = "\<lambda>target_duration entry.
            if f32_gt (duration entry) target_duration then duration entry else target_duration"
  let ?S = "set (map (\<lambda>entry. f32_value (duration entry)) es)"
  show ?case
  proof (cases "duration e = PInf")
    case True
    then show ?thesis by (simp add: target_fold_PInf)
  next
    case False
    define x where "x = f32_value (duration e)"
    have step: "?step (Finite a) e = Finite (max a x)"
      using Cons.prems by (cases "duration e") (simp_all add: x_def max_def False)
    have "0 \<le> max a x" using Cons.prems by simp
    from Cons.IH [OF this]
    have "foldl ?step (Finite (max a x)) es
          = (if PInf \<in> set (map duration es) then PInf else Finite (Max (insert (max a x) ?S)))" .
    moreover have "Max (insert (max a x) ?S) = Max (insert a (insert x ?S))"
      by (rule Max_insert_max) simp
    moreover have "insert x ?S = set (map (\<lambda>entry. f32_value (duration entry)) (e # es))"
      by (simp add: x_def)
    moreover have "PInf \<in> set (map duration (e # es)) \<longleftrightarrow> PInf \<in> set (map duration es)"
      using False by auto
    moreover have "foldl ?step (Finite a) (e # es) = foldl ?step (Finite (max a x)) es"
      using step by simp
    ultimately show ?thesis by (simp only:)
  qed
qed

lemma clamped_max_nonneg: "0 \<le> clamped_max es"
  by (simp add: clamped_max_def)

lemma guint_of_nonneg:
  assumes "0 \<le> m"
  shows "f32_to_guint (Finite m) = (if 2 ^ 32 \<le> m then None else Some (word_of_int \<lfloor>m\<rfloor>))"
proof -
  have "\<lfloor>m\<rfloor> < 2 ^ 32 \<longleftrightarrow> m < 2 ^ 32"
    using floor_less_iff [of m "2 ^ 32"] by simp
  with assms show ?thesis
    by (auto simp: truncate_rat_def Let_def not_le)
qed

lemma target_duration_value:
  "gst_m3u8_playlist_target_duration p =
     (if PInf \<in> set (map duration (entries p)) \<or> 2 ^ 32 \<le> clamped_max (entries p) then None
      else Some (word_of_int \<lfloor>clamped_max (entries p)\<rfloor>))"
proof -
  have "gst_m3u8_playlist_target_duration p =
        f32_to_guint (if PInf \<in> set (map duration (entries p)) then PInf
                      else Finite (clamped_max (entries p)))"
    unfolding gst_m3u8_playlist_target_duration_def clamped_max_def
    by (subst target_fold) simp_all
  then show ?thesis
    using guint_of_nonneg [OF clamped_max_nonneg, of "entries p"] by simp
qed

lemma printf_u_floor:
  assumes "0 \<le> m" and "m < 2 ^ 32"
  shows "printf_u (word_of_int \<lfloor>m\<rfloor>) = decimal \<lfloor>m\<rfloor>"
proof -
  from assms have "0 \<le> \<lfloor>m\<rfloor>" "\<lfloor>m\<rfloor> < 2 ^ 32"
    using floor_less_iff [of m "2 ^ 32"] by simp_all
  then have "uint (word_of_int \<lfloor>m\<rfloor> :: guint) = \<lfloor>m\<rfloor>"
    by (simp add: uint_word_of_int take_bit_int_eq_self)
  then show ?thesis by (simp add: printf_u_def)
qed

text \<open>Bounds on the single-precision arithmetic.\<close>

lemma pow2_powi: "pow2 e = 2 powi e"
proof (cases "0 \<le> e")
  case True
  then show ?thesis by (simp add: pow2_def power_int_def)
next
  case False
  then show ?thesis by (simp add: pow2_def power_int_def power_one_over)
qed

lemma ilog2_le:
  assumes "0 < a" and "a \<le> 2 ^ k"
  shows "ilog2 a \<le> int k"
proof (cases "1 \<le> a")
  case True
  then have pos: "0 < \<lfloor>a\<rfloor>" by simp
  from assms(2) have "\<lfloor>a\<rfloor> \<le> \<lfloor>2 ^ k :: rat\<rfloor>"
    by (rule floor_mono)
  then have "\<lfloor>a\<rfloor> \<le> 2 ^ k" by simp
  moreover from bitlen_bounds [OF pos] have "2 ^ nat (bitlen \<lfloor>a\<rfloor> - 1) \<le> \<lfloor>a\<rfloor>" by simp
  ultimately have "(2::int) ^ nat (bitlen \<lfloor>a\<rfloor> - 1) \<le> 2 ^ k" by linarith
  then have "nat (bitlen \<lfloor>a\<rfloor> - 1) \<le> k" by simp
  with True show ?thesis by (simp add: ilog2_def)
next
  case False
  have "0 \<le> bitlen (\<lceil>1 / a\<rceil> - 1)" by (rule bitlen_nonneg)
  with False show ?thesis by (simp add: ilog2_def)
qed

lemma round_half_even_le:
  assumes "z \<le> of_int M"
  shows "round_half_even z \<le> M"
proof -
  from assms have fl: "\<lfloor>z\<rfloor> \<le> M" by (simp add: floor_le_iff)
  show ?thesis
  proof (cases "z = of_int \<lfloor>z\<rfloor>")
    case True
    then have "z - of_int \<lfloor>z\<rfloor> = 0" by simp
    then have "round_half_even z = \<lfloor>z\<rfloor>" by (simp add: round_half_even_def Let_def)
    with fl show ?thesis by simp
  next
    case False
    then have "of_int \<lfloor>z\<rfloor> < z" using of_int_floor_le [of z] by linarith
    with assms have "of_int \<lfloor>z\<rfloor> < (of_int M :: rat)" by linarith
    then have "\<lfloor>z\<rfloor> < M" by simp
    moreover have "round_half_even z \<le> \<lfloor>z\<rfloor> + 1"
      by (simp add: round_half_even_def Let_def)
    ultimately show ?thesis by linarith
  qed
qed

lemma round_half_even_nonneg:
  assumes "0 \<le> z"
  shows "0 \<le> round_half_even z"
proof -
  from assms have "0 \<le> \<lfloor>z\<rfloor>" by simp
  moreover have "\<lfloor>z\<rfloor> \<le> round_half_even z" by (simp add: round_half_even_def Let_def)
  ultimately show ?thesis by linarith
qed

text \<open>Rounding to single precision does not leave an interval that ends at a power of two.\<close>

lemma f32_round_bound:
  assumes "\<bar>x\<bar> \<le> 2 ^ k" and "k < 128"
  shows "f32_round x = NZero \<or> (\<exists>y. f32_round x = Finite y \<and> \<bar>y\<bar> \<le> 2 ^ k)"
proof (cases "x = 0")
  case True
  then show ?thesis by (simp add: f32_round_def)
next
  case False
  define a where "a = \<bar>x\<bar>"
  define e where "e = max (ilog2 a) (- 126)"
  define q where "q = pow2 (e - 23)"
  define m where "m = round_half_even (a / q)"
  define y where "y = of_int m * q"
  from False have a: "0 < a" "a \<le> 2 ^ k" using assms(1) by (simp_all add: a_def)
  have q: "0 < q" by (simp add: q_def pow2_powi)
  from ilog2_le [OF a] have "e - 23 \<le> int k" by (simp add: e_def)
  then obtain n where n: "int k = (e - 23) + int n"
    by (metis zle_iff_zadd)
  have "(2::rat) powi int k = 2 powi (e - 23) * 2 powi int n"
    by (simp add: n power_int_add)
  then have pk: "(2::rat) ^ k = q * of_int (2 ^ n)"
    by (simp add: q_def pow2_powi)
  from a(2) q have "a / q \<le> of_int (2 ^ n)"
    by (simp add: pk pos_divide_le_eq mult.commute)
  then have "m \<le> 2 ^ n" unfolding m_def by (rule round_half_even_le)
  then have "(of_int m :: rat) \<le> of_int (2 ^ n)" by (simp only: of_int_le_iff)
  with q have yk: "y \<le> 2 ^ k" by (simp add: y_def pk mult.commute)
  from a(1) q have "0 \<le> a / q" by simp
  then have "0 \<le> m" unfolding m_def by (rule round_half_even_nonneg)
  with q have y0: "0 \<le> y" by (simp add: y_def)
  from assms(2) have "(2::rat) ^ k < 2 ^ 128" by (intro power_strict_increasing) simp_all
  with yk have "\<not> pow2 128 \<le> y" by (simp add: pow2_def)
  moreover have "f32_round x =
     (if pow2 128 \<le> y then (if 0 < x then PInf else NInf)
      else if m = 0 then (if 0 < x then Finite 0 else NZero)
      else Finite (if 0 < x then y else - y))"
    using False by (simp add: f32_round_def Let_def a_def e_def q_def m_def y_def)
  ultimately show ?thesis using yk y0 by auto
qed

lemma clock_constants:
  "f32_of_int (500 * GST_MSECOND) = Finite 500000000"
  "f32_of_int GST_SECOND = Finite 1000000000"
  by code_simp+

text \<open>The integer of a version 1 or 2 playlist is defined for a duration below \<open>2^32\<close>.\<close>

lemma extinf_seconds_returns:
  assumes "duration entry = Finite x" and "\<bar>x\<bar> \<le> 2 ^ 32"
  shows "\<exists>secs. extinf_seconds entry = Some secs"
proof -
  define s where "s = f32_add (duration entry) (Finite 500000000)"
  define r where "r = f32_div s (Finite 1000000000)"
  have "\<bar>x + 500000000\<bar> \<le> \<bar>x\<bar> + 500000000" by linarith
  also have "\<dots> \<le> 2 ^ 32 + 500000000" using assms(2) by linarith
  also have "\<dots> \<le> 2 ^ 33" by simp
  finally have "\<bar>x + 500000000\<bar> \<le> 2 ^ 33" .
  then have "f32_round (x + 500000000) = NZero
        \<or> (\<exists>y. f32_round (x + 500000000) = Finite y \<and> \<bar>y\<bar> \<le> 2 ^ 33)"
    by (rule f32_round_bound) simp
  moreover have "s = (if x + 500000000 = 0 then Finite 0 else f32_round (x + 500000000))"
    by (simp add: s_def assms(1))
  ultimately consider "s = NZero" | "s = Finite 0"
    | y where "s = Finite y" "y \<noteq> 0" "\<bar>y\<bar> \<le> 2 ^ 33"
    by (cases "x + 500000000 = 0") auto
  then have r: "r = NZero \<or> (\<exists>z. r = Finite z \<and> \<bar>z\<bar> \<le> 2 ^ 4)"
  proof cases
    case 1
    then show ?thesis by (simp add: r_def f32_div_def)
  next
    case 2
    then show ?thesis by (simp add: r_def f32_div_def)
  next
    case (3 y)
    have "\<bar>y / 1000000000\<bar> = \<bar>y\<bar> / 1000000000" by simp
    also have "\<dots> \<le> 2 ^ 33 / 1000000000" using 3(3) by (intro divide_right_mono) simp_all
    also have "\<dots> \<le> 2 ^ 4" by simp
    finally have "\<bar>y / 1000000000\<bar> \<le> 2 ^ 4" .
    then have "f32_round (y / 1000000000) = NZero
          \<or> (\<exists>z. f32_round (y / 1000000000) = Finite z \<and> \<bar>z\<bar> \<le> 2 ^ 4)"
      by (rule f32_round_bound) simp
    moreover have "r = f32_round (y / 1000000000)"
      using 3(1,2) by (simp add: r_def f32_div_def)
    ultimately show ?thesis by simp
  qed
  have "\<exists>secs. f32_to_gint r = Some secs"
  proof (cases "r = NZero")
    case True
    then show ?thesis by simp
  next
    case False
    with r obtain z where z: "r = Finite z" "\<bar>z\<bar> \<le> 2 ^ 4" by auto
    from z(2) have "- 16 \<le> z" "z \<le> 16" by (simp_all add: abs_le_iff)
    then have "- 16 \<le> \<lceil>z\<rceil>" "\<lfloor>z\<rfloor> \<le> 16" "\<lfloor>z\<rfloor> \<le> \<lceil>z\<rceil>"
      by linarith+
    then have "- 2147483648 \<le> truncate_rat z \<and> truncate_rat z < 2147483648"
      by (simp add: truncate_rat_def)
    with z(1) show ?thesis by (simp add: Let_def)
  qed
  then show ?thesis
    by (simp add: extinf_seconds_def clock_constants r_def s_def assms(1))
qed

lemma clamped_max_spec:
  assumes "list_all (\<lambda>entry. nonneg_finite (duration entry)) es"
  shows "\<lfloor>clamped_max es\<rfloor> = spec_target_duration es"
proof (cases "es = []")
  case True
  then show ?thesis by (simp add: clamped_max_def spec_target_duration_def)
next
  case False
  define V where "V = set (map (\<lambda>entry. f32_value (duration entry)) es)"
  have fin: "finite V" and ne: "V \<noteq> {}" using False by (simp_all add: V_def)
  have nonneg: "\<forall>v\<in>V. 0 \<le> v"
  proof
    fix v assume "v \<in> V"
    then obtain e where e: "e \<in> set es" "v = f32_value (duration e)" by (auto simp: V_def)
    with assms have "nonneg_finite (duration e)" by (simp add: list_all_iff)
    with e(2) show "0 \<le> v" by (cases "duration e") auto
  qed
  from ne obtain v where v: "v \<in> V" by blast
  with nonneg fin have "0 \<le> v" "v \<le> Max V" by auto
  then have pos: "0 \<le> Max V" by simp
  with fin ne have "Max (insert 0 V) = Max V" by (simp add: max_def)
  then have "clamped_max es = Max V" by (simp add: clamped_max_def V_def)
  moreover have "spec_target_duration es = \<lfloor>Max V\<rfloor>"
    using False pos by (simp add: spec_target_duration_def truncate_rat_def V_def)
  ultimately show ?thesis by simp
qed

text \<open>
  The loop over the entries returns from version 3 on, and for the versions 1 and 2
  when no duration exceeds \<open>2^32\<close> in magnitude.
\<close>

lemma render_entries_returns:
  "3 \<le> ver \<Longrightarrow> \<exists>body. render_entries ver es = Inr body"
proof (induction es)
  case Nil
  then show ?case by simp
next
  case (Cons e es)
  from Cons.prems have "\<not> ver < 3" by (simp add: not_less)
  with Cons.IH [OF Cons.prems] show ?case
    by (auto simp: render_one_def render_extinf_def Let_def)
qed

lemma render_entries_returns_bounded:
  "list_all (\<lambda>entry. \<exists>x. duration entry = Finite x \<and> \<bar>x\<bar> \<le> 2 ^ 32) es
   \<Longrightarrow> \<exists>body. render_entries ver es = Inr body"
proof (induction es)
  case Nil
  then show ?case by simp
next
  case (Cons e es)
  from Cons.prems obtain x where "duration e = Finite x" "\<bar>x\<bar> \<le> 2 ^ 32" by auto
  then obtain secs where "extinf_seconds e = Some secs"
    using extinf_seconds_returns by blast
  then have "\<exists>line. render_one ver e = Inr line"
    by (simp add: render_one_def render_extinf_def Let_def)
  moreover from Cons have "\<exists>body. render_entries ver es = Inr body" by simp
  ultimately show ?case by auto
qed

lemma nonneg_below_clamped_max:
  assumes "list_all (\<lambda>entry. nonneg_finite (duration entry)) es"
    and "clamped_max es < 2 ^ 32"
  shows "list_all (\<lambda>entry. \<exists>x. duration entry = Finite x \<and> \<bar>x\<bar> \<le> 2 ^ 32) es"
  unfolding list_all_iff
proof
  fix e assume e: "e \<in> set es"
  with assms(1) have "nonneg_finite (duration e)" by (simp add: list_all_iff)
  then obtain x where x: "duration e = Finite x" "0 \<le> x" by (cases "duration e") auto
  from e x(1) have "x \<in> insert 0 (set (map (\<lambda>entry. f32_value (duration entry)) es))"
    by force
  then have "x \<le> clamped_max es" unfolding clamped_max_def by (intro Max_ge) simp_all
  with assms(2) x show "\<exists>x. duration e = Finite x \<and> \<bar>x\<bar> \<le> 2 ^ 32" by simp
qed

lemma render_entries_returns_in_range:
  assumes "3 \<le> ver \<or> list_all (\<lambda>entry. nonneg_finite (duration entry)) es"
    and "clamped_max es < 2 ^ 32"
  shows "\<exists>body. render_entries ver es = Inr body"
  using assms render_entries_returns [of ver es]
    render_entries_returns_bounded [OF nonneg_below_clamped_max, of es ver]
  by blast

text \<open>
  C4: the target-duration tag of the rendered text, the fifth line, carries the maximum
  of 0 and the durations as they are stored, truncated to an integer.  For durations
  that are finite and not negative this is the maximum duration over the entries of the
  queue, truncated, and 0 for an empty queue; ten entries of duration 2.0 give the tag
  2.  The text is rendered whenever no duration is \<open>+\<infinity>\<close>, the maximum is below \<open>2^32\<close>
  and the loop over the entries returns, which it does from version 3 on and for
  durations that are finite and not negative; from \<open>2^32\<close> on the conversion of the
  maximum to \<^verbatim>\<open>guint\<close> is undefined.
\<close>

theorem render_target_duration:
  "gst_m3u8_playlist_render p =
     (if PInf \<in> set (map duration (entries p)) \<or> 2 ^ 32 \<le> clamped_max (entries p)
      then Inl UB_float_to_integer
      else case render_entries (version p) (entries p) of
             Inl e \<Rightarrow> Inl e
           | Inr body \<Rightarrow>
               Inr (''#EXTM3U'' @ newline
                    @ ''#EXT-X-VERSION:'' @ printf_d (version p) @ newline
                    @ ''#EXT-X-ALLOW-CACHE:'' @ (if allow_cache p then ''YES'' else ''NO'') @ newline
                    @ ''#EXT-X-MEDIA-SEQUENCE:''
                    @ printf_d (sequence_number p - word_of_nat (length (entries p))) @ newline
                    @ ''#EXT-X-TARGETDURATION:'' @ decimal \<lfloor>clamped_max (entries p)\<rfloor> @ newline
                    @ newline
                    @ body
                    @ (if end_list p then ''#EXT-X-ENDLIST'' else [])))
   \<and> ((3 \<le> version p \<or> list_all (\<lambda>entry. nonneg_finite (duration entry)) (entries p))
          \<and> clamped_max (entries p) < 2 ^ 32
        \<longrightarrow> (\<exists>body. render_entries (version p) (entries p) = Inr body))
   \<and> (list_all (\<lambda>entry. nonneg_finite (duration entry)) (entries p)
        \<longrightarrow> \<lfloor>clamped_max (entries p)\<rfloor> = spec_target_duration (entries p))"
proof (intro conjI impI)
  show "gst_m3u8_playlist_render p =
     (if PInf \<in> set (map duration (entries p)) \<or> 2 ^ 32 \<le> clamped_max (entries p)
      then Inl UB_float_to_integer
      else case render_entries (version p) (entries p) of
             Inl e \<Rightarrow> Inl e
           | Inr body \<Rightarrow>
               Inr (''#EXTM3U'' @ newline
                    @ ''#EXT-X-VERSION:'' @ printf_d (version p) @ newline
                    @ ''#EXT-X-ALLOW-CACHE:'' @ (if allow_cache p then ''YES'' else ''NO'') @ newline
                    @ ''#EXT-X-MEDIA-SEQUENCE:''
                    @ printf_d (sequence_number p - word_of_nat (length (entries p))) @ newline
                    @ ''#EXT-X-TARGETDURATION:'' @ decimal \<lfloor>clamped_max (entries p)\<rfloor> @ newline
                    @ newline
                    @ body
                    @ (if end_list p then ''#EXT-X-ENDLIST'' else [])))"
  proof (cases "PInf \<in> set (map duration (entries p)) \<or> 2 ^ 32 \<le> clamped_max (entries p)")
    case True
    then have "gst_m3u8_playlist_target_duration p = None"
      by (simp only: target_duration_value if_True)
    with True show ?thesis by (simp add: gst_m3u8_playlist_render_def)
  next
    case False
    then have t: "gst_m3u8_playlist_target_duration p
                  = Some (word_of_int \<lfloor>clamped_max (entries p)\<rfloor>)"
      by (simp only: target_duration_value if_False)
    from False have "clamped_max (entries p) < 2 ^ 32" by (simp add: not_le)
    with clamped_max_nonneg
    have "printf_u (word_of_int \<lfloor>clamped_max (entries p)\<rfloor>) = decimal \<lfloor>clamped_max (entries p)\<rfloor>"
      by (rule printf_u_floor)
    with t False show ?thesis
      by (simp add: gst_m3u8_playlist_render_def media_sequence_def split: sum.splits)
  qed
next
  assume "(3 \<le> version p \<or> list_all (\<lambda>entry. nonneg_finite (duration entry)) (entries p))
          \<and> clamped_max (entries p) < 2 ^ 32"
  then show "\<exists>body. render_entries (version p) (entries p) = Inr body"
    using render_entries_returns_in_range [of "version p" "entries p"] by blast
next
  assume "list_all (\<lambda>entry. nonneg_finite (duration entry)) (entries p)"
  then show "\<lfloor>clamped_max (entries p)\<rfloor> = spec_target_duration (entries p)"
    by (rule clamped_max_spec)
qed

theorem render_target_duration_witness:
  "map duration (entries (fst (example_state 3 0 ten_segments))) = replicate 10 (Finite 2) \<and>
   clamped_max (entries (fst (example_state 3 0 ten_segments))) = 2 \<and>
   spec_target_duration (entries (fst (example_state 3 0 ten_segments))) = 2 \<and>
   (\<exists>body. render_entries 3 (entries (fst (example_state 3 0 ten_segments))) = Inr body \<and>
      gst_m3u8_playlist_render (fst (example_state 3 0 ten_segments))
      = Inr (''#EXTM3U\<newline>#EXT-X-VERSION:3\<newline>#EXT-X-ALLOW-CACHE:YES\<newline>#EXT-X-MEDIA-SEQUENCE:0\<newline>#EXT-X-TARGETDURATION:2\<newline>\<newline>'' @ body))"
proof -
  let ?p = "fst (example_state 3 0 ten_segments)"
  have ds: "map duration (entries ?p) = replicate 10 (Finite 2)"
    by code_simp
  have h: "list_all (\<lambda>entry. nonneg_finite (duration entry)) (entries ?p)"
    by code_simp
  have cm: "clamped_max (entries ?p) = 2"
    by code_simp
  have fields: "version ?p = 3" "allow_cache ?p" "\<not> end_list ?p"
    "sequence_number ?p - word_of_nat (length (entries ?p)) = 0"
    by code_simp+
  have shown: "printf_d 3 = ''3''" "printf_d 0 = ''0''" "decimal 2 = ''2''"
    by code_simp+
  note inst = render_target_duration [of ?p]
  from inst [THEN conjunct2, THEN conjunct2] h
  have spec: "spec_target_duration (entries ?p) = 2"
    by (simp add: cm)
  from inst [THEN conjunct2, THEN conjunct1] h
  obtain body where body: "render_entries 3 (entries ?p) = Inr body"
    by (auto simp: cm fields)
  from inst [THEN conjunct1] have "gst_m3u8_playlist_render ?p
      = Inr (''#EXTM3U'' @ newline @ ''#EXT-X-VERSION:'' @ ''3'' @ newline
       @ ''#EXT-X-ALLOW-CACHE:'' @ ''YES'' @ newline
       @ ''#EXT-X-MEDIA-SEQUENCE:'' @ ''0'' @ newline
       @ ''#EXT-X-TARGETDURATION:'' @ ''2'' @ newline @ newline @ body)"
    by (simp add: ds cm fields shown body)
  then have "gst_m3u8_playlist_render ?p
      = Inr (''#EXTM3U\<newline>#EXT-X-VERSION:3\<newline>#EXT-X-ALLOW-CACHE:YES\<newline>#EXT-X-MEDIA-SEQUENCE:0\<newline>#EXT-X-TARGETDURATION:2\<newline>\<newline>'' @ body)"
    by (simp add: newline_def)
  with ds cm spec body show ?thesis by blast
qed

text \<open>
  C4 as stated fails for durations that are negative.  Two entries of the durations -3
  and -1: their maximum is -1, the tag is 0, where the loop starts.
\<close>

theorem render_target_duration_counterexample:
  "map duration (entries (fst (example_state 3 0 [(1, - 3), (2, - 1)])))
     = [Finite (- 3), Finite (- 1)] \<and>
   spec_target_duration (entries (fst (example_state 3 0 [(1, - 3), (2, - 1)]))) = - 1 \<and>
   gst_m3u8_playlist_target_duration (fst (example_state 3 0 [(1, - 3), (2, - 1)])) = Some 0 \<and>
   gst_m3u8_playlist_render (fst (example_state 3 0 [(1, - 3), (2, - 1)]))
     = Inr ''#EXTM3U\<newline>#EXT-X-VERSION:3\<newline>#EXT-X-ALLOW-CACHE:YES\<newline>#EXT-X-MEDIA-SEQUENCE:0\<newline>#EXT-X-TARGETDURATION:0\<newline>\<newline>#EXTINF:-3.0000000261765081e-09,\<newline>http://example.com/live/segment.ts\<newline>#EXTINF:-9.9999997171806854e-10,\<newline>http://example.com/live/segment.ts\<newline>''"
proof (intro conjI)
  show "map duration (entries (fst (example_state 3 0 [(1, - 3), (2, - 1)])))
     = [Finite (- 3), Finite (- 1)]"
    by code_simp
  show "spec_target_duration (entries (fst (example_state 3 0 [(1, - 3), (2, - 1)]))) = - 1"
    by code_simp
  show "gst_m3u8_playlist_target_duration (fst (example_state 3 0 [(1, - 3), (2, - 1)])) = Some 0"
    by code_simp
  show "gst_m3u8_playlist_render (fst (example_state 3 0 [(1, - 3), (2, - 1)]))
     = Inr ''#EXTM3U\<newline>#EXT-X-VERSION:3\<newline>#EXT-X-ALLOW-CACHE:YES\<newline>#EXT-X-MEDIA-SEQUENCE:0\<newline>#EXT-X-TARGETDURATION:0\<newline>\<newline>#EXTINF:-3.0000000261765081e-09,\<newline>http://example.com/live/segment.ts\<newline>#EXTINF:-9.9999997171806854e-10,\<newline>http://example.com/live/segment.ts\<newline>''"
    by code_simp
qed










































end
